theory Spec2Isabelle
  imports Complex_Main
begin

text \<open>
  The repository holds four variants of one measurement script, which drive a headless
  browser over a list of sites. They are called here:
  \<^item> the JSON script (\<^verbatim>\<open>src/unnamed/part_000\<close>): \<open>getPageMetrics\<close> and \<open>loadPages\<close>, output as JSON;
  \<^item> the CSV script (\<^verbatim>\<open>src/unnamed/part_001\<close>): the same two functions with the
    \<open>redirected\<close> flag, datasets and CSV output;
  \<^item> the combined-averages script (\<^verbatim>\<open>src/index.js\<close>, first half): \<open>getInitialPageLoadMetrics\<close>,
    \<open>findHomepageLinkOnce\<close>, \<open>measureHomepageNavigation\<close>, \<open>calculateAverage\<close>;
  \<^item> the individual-tries script (\<^verbatim>\<open>src/index.js\<close>, second half): \<open>getPageLoadMetrics\<close> and
    the same link finder and aggregator.

  The browser, the network and the URL parser of the platform are outside the repository:
  what they deliver to a function (the responses observed, the outcome of a navigation,
  the elements a selector matches, the parse of a URL) is the input of its model.
\<close>

section \<open>JavaScript values\<close>

text \<open>
  The scripts compute with JavaScript numbers and strings. A number is modelled as an exact
  rational or \<open>NaN\<close>: the byte counters only ever hold non-negative integers, the timings are
  decimal fractions, and \<open>NaN\<close> is what \<open>parseInt\<close> gives on a string without digits. The
  rounding of IEEE doubles and the infinities are not modelled (they need values beyond
  \<open>2^53\<close> or a division by zero, which none of the functions below performs).
  Strings are lists of 8-bit characters, which is exact for the ASCII texts compared here.
\<close>

datatype jsnum = Num rat | NaN

fun jsadd :: "jsnum \<Rightarrow> jsnum \<Rightarrow> jsnum" where
  "jsadd (Num a) (Num b) = Num (a + b)"
| "jsadd _ _ = NaN"

datatype jsval = Number jsnum | Str string | Bool bool | Undefined

text \<open>An object literal is an association list; reading a key that is absent gives \<open>undefined\<close>.\<close>

type_synonym jsobj = "(string \<times> jsval) list"

definition get :: "jsobj \<Rightarrow> string \<Rightarrow> jsval" where
  "get m k = (case map_of m k of None \<Rightarrow> Undefined | Some v \<Rightarrow> v)"

subsection \<open>String methods\<close>

fun startsWith :: "string \<Rightarrow> string \<Rightarrow> bool" where
  "startsWith s [] = True"
| "startsWith [] (p # ps) = False"
| "startsWith (c # cs) (p # ps) = (c = p \<and> startsWith cs ps)"

definition endsWith :: "string \<Rightarrow> string \<Rightarrow> bool" where
  "endsWith s p = startsWith (rev s) (rev p)"

text \<open>\<open>s.includes(p)\<close>: \<open>p\<close> occurs somewhere in \<open>s\<close>.\<close>

fun includesStr :: "string \<Rightarrow> string \<Rightarrow> bool" where
  "includesStr [] p = (p = [])"
| "includesStr (c # cs) p = (startsWith (c # cs) p \<or> includesStr cs p)"

text \<open>\<open>s.split(c)\<close> for a one-character separator; \<open>''''.split(c)\<close> is \<open>['''']\<close>.\<close>

fun splitStr :: "char \<Rightarrow> string \<Rightarrow> string list" where
  "splitStr c [] = [[]]"
| "splitStr c (x # xs) =
     (if x = c then [] # splitStr c xs
      else (case splitStr c xs of [] \<Rightarrow> [[x]] | w # ws \<Rightarrow> (x # w) # ws))"

text \<open>
  \<open>parseInt(s, 10)\<close>: leading white space is skipped, one sign is read, and the longest run
  of decimal digits that follows is the value; with no digit there the result is \<open>NaN\<close>.
\<close>

definition isSpace :: "char \<Rightarrow> bool" where
  "isSpace c = ((of_char c :: nat) = 32 \<or> (9 \<le> (of_char c :: nat) \<and> (of_char c :: nat) \<le> 13))"

definition isDigit :: "char \<Rightarrow> bool" where
  "isDigit c = (48 \<le> (of_char c :: nat) \<and> (of_char c :: nat) \<le> 57)"

definition digitsValue :: "string \<Rightarrow> nat" where
  "digitsValue ds = foldl (\<lambda>acc c. acc * 10 + (of_char c - 48)) 0 ds"

definition parseInt :: "string \<Rightarrow> jsnum" where
  "parseInt s =
     (let t = dropWhile isSpace s;
          u = (if startsWith t ''-'' \<or> startsWith t ''+'' then tl t else t);
          ds = takeWhile isDigit u
      in if ds = [] then NaN
         else if startsWith t ''-'' then Num (- of_nat (digitsValue ds))
         else Num (of_nat (digitsValue ds)))"

text \<open>
  \<open>parseFloat(x.toFixed(2))\<close>: \<open>toFixed\<close> picks the integer \<open>n\<close> with \<open>n / 100\<close> nearest to
  the magnitude of \<open>x\<close>, the larger one on a tie, and keeps the sign (magnitudes below
  \<open>10^21\<close>, beyond which \<open>toFixed\<close> switches to exponent notation).
\<close>

definition toFixed2 :: "rat \<Rightarrow> rat" where
  "toFixed2 x =
     (if x < 0 then - (of_int \<lfloor>- x * 100 + 1 / 2\<rfloor> / 100)
      else of_int \<lfloor>x * 100 + 1 / 2\<rfloor> / 100)"

section \<open>Byte Accountant: the response handlers\<close>

text \<open>
  The platform's URL parser is not part of the repository: a parsed URL is the record of
  the two components the scripts read from \<open>new URL(...)\<close>.
\<close>

record url =
  hostname :: string
  pathname :: string

text \<open>\<open>await response.body()\<close> resolves to a buffer of some length or rejects with an error.\<close>

datatype body_result = Body nat | BodyError string

text \<open>\<open>page.url()\<close> when the handler runs: still \<open>about:blank\<close>, or the URL of the document.\<close>

datatype page_location = AboutBlank | PageAt url

text \<open>
  One delivery of the \<open>response\<close> event, with everything the handler reads from the
  response and the page: \<open>status\<close> is \<open>response.status()\<close>, \<open>resp_url\<close> is
  \<open>new URL(response.url())\<close>, \<open>content_length\<close> is \<open>response.headers()['content-length']\<close>
  (absent: \<open>None\<close>), \<open>body\<close> is the outcome of \<open>response.body()\<close>, and \<open>location\<close> is
  \<open>new URL(await response.headerValue('Location'))\<close>, \<open>None\<close> when the header is missing or
  is not an absolute URL, where the constructor throws.
  The handlers are asynchronous; they are modelled as running to completion one after the
  other, in the order of the list of deliveries.
\<close>

record response =
  status :: int
  resp_url :: url
  content_length :: "string option"
  body :: body_result
  location :: "url option"
  page_at :: page_location

text \<open>The four counters of \<open>getPageMetrics\<close>; the later variant adds the flag \<open>redirected\<close>.\<close>

record counters =
  totalTransferredBytes :: jsnum
  totalSameOriginTransferredBytes :: jsnum
  totalCrossOriginTransferredBytes :: jsnum
  totalTransferredResources :: nat

record counters_flag = counters +
  redirected :: bool

definition counters0 :: counters where
  "counters0 = \<lparr>totalTransferredBytes = Num 0, totalSameOriginTransferredBytes = Num 0,
     totalCrossOriginTransferredBytes = Num 0, totalTransferredResources = 0\<rparr>"

definition counters_flag0 :: counters_flag where
  "counters_flag0 = \<lparr>totalTransferredBytes = Num 0, totalSameOriginTransferredBytes = Num 0,
     totalCrossOriginTransferredBytes = Num 0, totalTransferredResources = 0,
     redirected = False\<rparr>"

text \<open>\<open>if (contentLength)\<close>: the header is present and not the empty string.\<close>

definition truthy :: "string option \<Rightarrow> bool" where
  "truthy h = (case h of None \<Rightarrow> False | Some s \<Rightarrow> s \<noteq> [])"

text \<open>
  The two branches that add \<open>n\<close> bytes: to the total, and to the same-origin or the
  cross-origin bucket by comparing the response's hostname with the hostname of the
  visit's URL; then \<open>totalTransferredResources++\<close>.
\<close>

definition addBytes :: "url \<Rightarrow> response \<Rightarrow> jsnum \<Rightarrow> 'a counters_scheme \<Rightarrow> 'a counters_scheme" where
  "addBytes start r n c =
     (let c1 = c\<lparr>totalTransferredBytes := jsadd (totalTransferredBytes c) n\<rparr>;
          c2 = (if hostname (resp_url r) = hostname start
                then c1\<lparr>totalSameOriginTransferredBytes :=
                        jsadd (totalSameOriginTransferredBytes c1) n\<rparr>
                else c1\<lparr>totalCrossOriginTransferredBytes :=
                        jsadd (totalCrossOriginTransferredBytes c1) n\<rparr>)
      in c2\<lparr>totalTransferredResources := Suc (totalTransferredResources c2)\<rparr>)"

text \<open>
  The part of the handler from the status filter to the increment of the resource
  counter. \<open>Inl msg\<close> is the exception of \<open>response.body()\<close>, thrown before any counter is
  touched; \<open>parseInt(buffer.length, 10)\<close> is the length itself.
\<close>

definition countResponse ::
  "url \<Rightarrow> response \<Rightarrow> 'a counters_scheme \<Rightarrow> string + 'a counters_scheme" where
  "countResponse start r c =
     (if status r < 200 \<or> status r \<ge> 400 then Inr c
      else if truthy (content_length r)
        then Inr (addBytes start r (parseInt (the (content_length r))) c)
      else (case body r of
              BodyError msg \<Rightarrow> Inl msg
            | Body len \<Rightarrow> Inr (addBytes start r (Num (of_nat len)) c)))"

subsection \<open>The variant with the \<open>redirected\<close> flag (the CSV script)\<close>

text \<open>
  The URL the redirect test looks at: the \<open>Location\<close> header while the page is still at
  \<open>about:blank\<close>, the page's URL otherwise. \<open>None\<close>: \<open>new URL\<close> throws.
\<close>

definition redirectTarget :: "response \<Rightarrow> url option" where
  "redirectTarget r = (case page_at r of AboutBlank \<Rightarrow> location r | PageAt u \<Rightarrow> Some u)"

text \<open>
  The condition of the first \<open>if\<close>, evaluated left to right: the URL is only built when the
  status is in \<open>301..399\<close> and no reset has happened yet. \<open>None\<close>: building it throws.
\<close>

definition redirectTest :: "url \<Rightarrow> response \<Rightarrow> counters_flag \<Rightarrow> bool option" where
  "redirectTest start r c =
     (if status r \<ge> 301 \<and> status r \<le> 399 \<and> \<not> redirected c then
        (case redirectTarget r of
           None \<Rightarrow> None
         | Some t \<Rightarrow> Some (pathname t = pathname start \<and> hostname t \<noteq> hostname start))
      else Some False)"

definition resetCounters :: "counters_flag \<Rightarrow> counters_flag" where
  "resetCounters c = c\<lparr>totalCrossOriginTransferredBytes := Num 0,
     totalSameOriginTransferredBytes := Num 0, totalTransferredBytes := Num 0,
     totalTransferredResources := 0, redirected := True\<rparr>"

text \<open>The handler: every exception ends it with the counters as they are at that point.\<close>

definition onResponse_flag :: "url \<Rightarrow> counters_flag \<Rightarrow> response \<Rightarrow> counters_flag" where
  "onResponse_flag start c r =
     (case redirectTest start r c of
        None \<Rightarrow> c
      | Some b \<Rightarrow>
          (let c1 = (if b then resetCounters c else c)
           in case countResponse start r c1 of Inl msg \<Rightarrow> c1 | Inr c2 \<Rightarrow> c2))"

subsection \<open>The earlier variant (the JSON script)\<close>

text \<open>
  No redirect test before counting; the \<open>catch\<close> clears the four counters when the message
  of the exception says that the body of a redirect response is unavailable.
\<close>

definition onResponse_json :: "url \<Rightarrow> counters \<Rightarrow> response \<Rightarrow> counters" where
  "onResponse_json start c r =
     (case countResponse start r c of
        Inr c1 \<Rightarrow> c1
      | Inl msg \<Rightarrow>
          (if includesStr msg ''Response body is unavailable for redirect responses''
           then c\<lparr>totalCrossOriginTransferredBytes := Num 0,
                  totalSameOriginTransferredBytes := Num 0, totalTransferredBytes := Num 0,
                  totalTransferredResources := 0\<rparr>
           else c))"

subsection \<open>The handler of \<open>getPageLoadMetrics\<close> (the individual-tries script)\<close>

definition onResponse_pageLoad :: "jsnum \<Rightarrow> response \<Rightarrow> jsnum" where
  "onResponse_pageLoad bytes r =
     (if status r < 200 \<or> status r \<ge> 400 then bytes
      else if truthy (content_length r) then jsadd bytes (parseInt (the (content_length r)))
      else (case body r of BodyError msg \<Rightarrow> bytes | Body len \<Rightarrow> jsadd bytes (Num (of_nat len))))"

text \<open>A visit delivers its responses in order to the handler registered for it.\<close>

definition accountant_flag :: "url \<Rightarrow> response list \<Rightarrow> counters_flag" where
  "accountant_flag start rs = foldl (onResponse_flag start) counters_flag0 rs"

definition accountant_json :: "url \<Rightarrow> response list \<Rightarrow> counters" where
  "accountant_json start rs = foldl (onResponse_json start) counters0 rs"

section \<open>Navigation Trial Runner: \<open>getPageMetrics\<close>\<close>

text \<open>
  What the browser does during one call is the input of the model. A thrown exception is
  its \<open>name\<close> and \<open>message\<close>.
\<close>

record js_error =
  err_name :: string
  err_message :: string

text \<open>The entry \<open>performance.getEntriesByType('navigation')[0]\<close>.\<close>

record navTiming =
  startTime :: rat
  loadEventEnd :: rat
  domContentLoadedEventEnd :: rat

text \<open>
  An \<open>a\<close> element of the loaded page: \<open>href\<close> is \<open>getAttribute('href')\<close> (\<open>None\<close> for
  \<open>null\<close>), \<open>href_url\<close> is \<open>new URL(href)\<close>, \<open>None\<close> where the constructor throws (a relative
  or missing href).
\<close>

record anchor =
  href :: "string option"
  href_url :: "url option"

text \<open>
  The loaded page: \<open>page.url()\<close> and the hostname of its parse, the navigation entry
  (\<open>None\<close> when the list of entries is empty), the number of elements and the \<open>a\<close>
  elements in document order.
\<close>

record page =
  page_url :: string
  page_hostname :: string
  navigation :: "navTiming option"
  elementCount :: nat
  anchors :: "anchor list"

text \<open>
  The \<open>try\<close> block either gets through \<open>goto\<close>, the two \<open>evaluate\<close> calls and the scan of
  the anchors, or one of the awaited calls throws.
\<close>

datatype nav_result = Loaded page | Failed js_error

text \<open>
  One visit: the parse of the URL passed in, \<open>new URL(url)\<close>, which is \<open>None\<close> when the
  constructor throws (\<open>url\<close> is not an absolute URL); the responses whose handlers have run
  when the function builds its result; and the outcome of the \<open>try\<close> block.
\<close>

record visit =
  visit_url :: "url option"
  visit_responses :: "response list"
  visit_result :: nav_result

text \<open>The object returned by \<open>getPageMetrics\<close>; the two URL fields always hold strings.\<close>

record trial =
  pageLoadTime_ms :: jsval
  domContentLoadedTime_ms :: jsval
  totalTransferred_bytes :: jsval
  totalSameOriginTransferred_bytes :: jsval
  totalCrossOriginTransferred_bytes :: jsval
  totalTransferredResources_key :: jsval
  domElementCount :: jsval
  actualPage :: string
  otherPage :: string

text \<open>
  The loop over \<open>page.locator('a')\<close>: an anchor whose href parses as an absolute URL on
  another host is skipped (\<open>continue\<close>); the first remaining href that is not the root, not
  \<open>/index.html\<close>, not empty, and not a fragment or a query is taken (\<open>break\<close>).
\<close>

fun findOtherPage :: "string \<Rightarrow> anchor list \<Rightarrow> string" where
  "findOtherPage host [] = ''N/A''"
| "findOtherPage host (a # as) =
     (if (case href_url a of None \<Rightarrow> False | Some u \<Rightarrow> hostname u \<noteq> host)
      then findOtherPage host as
      else (case href a of
              None \<Rightarrow> findOtherPage host as
            | Some h \<Rightarrow>
                (if h \<noteq> ''/'' \<and> h \<noteq> ''/index.html'' \<and> h \<noteq> [] \<and>
                    \<not> startsWith h ''#'' \<and> \<not> startsWith h ''?''
                 then h else findOtherPage host as)))"

definition sentinelTrial :: "string \<Rightarrow> trial" where
  "sentinelTrial s = \<lparr>pageLoadTime_ms = Str s, domContentLoadedTime_ms = Str s,
     totalTransferred_bytes = Str s, totalSameOriginTransferred_bytes = Str s,
     totalCrossOriginTransferred_bytes = Str s, totalTransferredResources_key = Str s,
     domElementCount = Str s, actualPage = s, otherPage = s\<rparr>"

text \<open>
  The object of the successful path. With no navigation entry, reading \<open>loadEventEnd\<close> of
  \<open>undefined\<close> throws a \<open>TypeError\<close> inside the \<open>try\<close>, which the \<open>catch\<close> turns into the
  \<open>N/A\<close> object.
\<close>

definition measuredTrial :: "'a counters_scheme \<Rightarrow> page \<Rightarrow> trial" where
  "measuredTrial c p =
     (case navigation p of
        None \<Rightarrow> sentinelTrial ''N/A''
      | Some t \<Rightarrow>
          \<lparr>pageLoadTime_ms = Number (Num (toFixed2 (loadEventEnd t - startTime t))),
           domContentLoadedTime_ms =
             Number (Num (toFixed2 (domContentLoadedEventEnd t - startTime t))),
           totalTransferred_bytes = Number (totalTransferredBytes c),
           totalSameOriginTransferred_bytes = Number (totalSameOriginTransferredBytes c),
           totalCrossOriginTransferred_bytes = Number (totalCrossOriginTransferredBytes c),
           totalTransferredResources_key = Number (Num (of_nat (totalTransferredResources c))),
           domElementCount = Number (Num (of_nat (elementCount p))),
           actualPage = page_url p,
           otherPage = findOtherPage (page_hostname p) (anchors p)\<rparr>)"

text \<open>
  \<open>getPageMetrics\<close> reads \<open>new URL(url).hostname\<close> before its \<open>try\<close> block: where that throws
  the call returns nothing (\<open>None\<close>), and the exception leaves \<open>loadPages\<close> as well.
  The CSV script: on a timeout the four counter fields keep the counters.
\<close>

definition getPageMetrics_csv :: "visit \<Rightarrow> trial option" where
  "getPageMetrics_csv v =
     (case visit_url v of
        None \<Rightarrow> None
      | Some url \<Rightarrow>
          (let c = accountant_flag url (visit_responses v)
           in case visit_result v of
                Loaded p \<Rightarrow> Some (measuredTrial c p)
              | Failed e \<Rightarrow>
                  (if err_name e = ''TimeoutError'' then
                     Some \<lparr>pageLoadTime_ms = Str ''DNF'', domContentLoadedTime_ms = Str ''DNF'',
                       totalTransferred_bytes = Number (totalTransferredBytes c),
                       totalSameOriginTransferred_bytes =
                         Number (totalSameOriginTransferredBytes c),
                       totalCrossOriginTransferred_bytes =
                         Number (totalCrossOriginTransferredBytes c),
                       totalTransferredResources_key =
                         Number (Num (of_nat (totalTransferredResources c))),
                       domElementCount = Str ''DNF'', actualPage = ''DNF'',
                       otherPage = ''DNF''\<rparr>
                   else Some (sentinelTrial ''N/A''))))"

text \<open>The JSON script: on a timeout every field is \<open>DNF\<close>.\<close>

definition getPageMetrics_json :: "visit \<Rightarrow> trial option" where
  "getPageMetrics_json v =
     (case visit_url v of
        None \<Rightarrow> None
      | Some url \<Rightarrow>
          (let c = accountant_json url (visit_responses v)
           in case visit_result v of
                Loaded p \<Rightarrow> Some (measuredTrial c p)
              | Failed e \<Rightarrow>
                  (if err_name e = ''TimeoutError'' then Some (sentinelTrial ''DNF'')
                   else Some (sentinelTrial ''N/A''))))"

section \<open>Batch Driver: \<open>loadPages\<close>\<close>

text \<open>
  The browser as the driver sees it: for the URL and the label of a call, the visit that
  takes place.
\<close>

type_synonym browser = "string \<Rightarrow> string \<Rightarrow> visit"

text \<open>The labels \<open>prefix + i\<close> for \<open>i = 1, 2, 3\<close>.\<close>

definition trialNames :: "string \<Rightarrow> string list" where
  "trialNames prefix = map (\<lambda>d. prefix @ [d]) ''123''"

text \<open>
  The URL of the secondary page. The JSON script appends the href to the requested URL;
  the CSV script appends it to the resolved URL of the third trial, after removing the
  first \<open>/\<close> of an href that starts with one (\<open>replace('/', '')\<close>).
\<close>

definition secondaryUrl_json :: "string \<Rightarrow> trial \<Rightarrow> string" where
  "secondaryUrl_json site t =
     (if startsWith (otherPage t) ''http'' then otherPage t else site @ otherPage t)"

definition secondaryUrl_csv :: "trial \<Rightarrow> string" where
  "secondaryUrl_csv t =
     (if startsWith (otherPage t) ''http'' then otherPage t
      else actualPage t @
        (if startsWith (otherPage t) ''/'' then remove1 (CHR ''/'') (otherPage t)
         else otherPage t))"

record pageData =
  siteUrl :: string
  actualSiteUrl :: string
  metrics :: "trial list"
  otherMetrics :: "trial list"

record pageData_csv = pageData +
  dataset :: string

text \<open>
  The body of the loop over the sites, in the JSON script and in the CSV script. The
  trials are awaited one after the other; the first call that throws ends the run
  (\<open>None\<close>), since \<open>loadPages\<close> catches nothing.
\<close>

definition loadSite_json :: "browser \<Rightarrow> string \<Rightarrow> pageData option" where
  "loadSite_json browse site =
     (case those (map (\<lambda>n. getPageMetrics_json (browse site n)) (trialNames ''iter-'')) of
        None \<Rightarrow> None
      | Some indexPageMetricTimes \<Rightarrow>
          (let third = indexPageMetricTimes ! 2
           in case (if otherPage third \<noteq> ''N/A'' \<and> otherPage third \<noteq> ''DNF''
                    then those (map (\<lambda>n. getPageMetrics_json
                                            (browse (secondaryUrl_json site third) n))
                                 (trialNames ''other-iter-''))
                    else Some []) of
                None \<Rightarrow> None
              | Some otherPageMetricTimes \<Rightarrow>
                  Some \<lparr>siteUrl = site, actualSiteUrl = actualPage (indexPageMetricTimes ! 0),
                    metrics = indexPageMetricTimes, otherMetrics = otherPageMetricTimes\<rparr>))"

definition loadSite_csv :: "browser \<Rightarrow> string \<Rightarrow> string \<Rightarrow> pageData_csv option" where
  "loadSite_csv browse name site =
     (case those (map (\<lambda>n. getPageMetrics_csv (browse site n)) (trialNames ''iter-'')) of
        None \<Rightarrow> None
      | Some indexPageMetricTimes \<Rightarrow>
          (let third = indexPageMetricTimes ! 2
           in case (if otherPage third \<noteq> ''N/A'' \<and> otherPage third \<noteq> ''DNF''
                    then those (map (\<lambda>n. getPageMetrics_csv (browse (secondaryUrl_csv third) n))
                                 (trialNames ''other-iter-''))
                    else Some []) of
                None \<Rightarrow> None
              | Some otherPageMetricTimes \<Rightarrow>
                  Some \<lparr>siteUrl = site, actualSiteUrl = actualPage (indexPageMetricTimes ! 0),
                    metrics = indexPageMetricTimes, otherMetrics = otherPageMetricTimes,
                    dataset = name\<rparr>))"

text \<open>
  The twelve cells of a CSV row that describe the secondary page, before they are joined
  into the line. With one or two secondary results the script would read a field of
  \<open>undefined\<close> and throw (\<open>None\<close>); the driver only ever builds none or three.
\<close>

definition otherCells :: "trial list \<Rightarrow> jsval list option" where
  "otherCells om =
     (if length om > 0 then
        (if length om < 3 then None
         else Some [Str (actualPage (om ! 0)),
                domContentLoadedTime_ms (om ! 0), domContentLoadedTime_ms (om ! 1),
                domContentLoadedTime_ms (om ! 2),
                pageLoadTime_ms (om ! 0), pageLoadTime_ms (om ! 1), pageLoadTime_ms (om ! 2),
                totalTransferred_bytes (om ! 2), totalSameOriginTransferred_bytes (om ! 2),
                totalCrossOriginTransferred_bytes (om ! 2),
                totalTransferredResources_key (om ! 2), domElementCount (om ! 2)])
      else Some (replicate 12 (Str ''N/A'')))"

section \<open>The scripts of \<open>index.js\<close>\<close>

subsection \<open>Aggregator: \<open>calculateAverage\<close>\<close>




subsection \<open>Link Heuristic: \<open>findHomepageLinkOnce\<close>\<close>

definition homepageSelectors :: "string list" where
  \<open>homepageSelectors =
     [''a[href="/"]'', ''a[href="/index.html"]'', ''a[href="/home.html"]'',
      ''a:has(img[alt*="logo" i])'', ''a:has(img[alt*="home" i])'',
      ''a:has(img[alt*="site title" i])'', ''a:has(img[alt])'',
      ''a:has(img[class*="logo" i])'', ''a:has(img[src*="logo" i])'',
      ''a:has(img[src*="home" i])'', ''a:has(img)'',
      ''a:has-text("Home")'', ''a:has-text("home")'', ''a:has-text("Blog")'',
      ''a:has-text("Main")'', ''h1 a, h2 a'', ''a[title*="Home" i]'',
      ''a[aria-label*="Home" i]'', ''a[rel="home"]'', ''a[rel="start"]'',
      ''a.navbar-brand'', ''a#logo'', ''a.home-link'', ''a.site-title'',
      ''a.site-header a'', ''a[href*="/"]'']\<close>

text \<open>
  A located element: \<open>link_href\<close> is \<open>getAttribute('href')\<close>; \<open>link_url\<close> is
  \<open>new URL(href, page.url())\<close>, of which the function reads \<open>href\<close> (the absolute URL) and
  \<open>pathname\<close>; \<open>None\<close> where the constructor throws.
\<close>

record resolved =
  url_href :: string
  url_pathname :: string

record link =
  link_href :: "string option"
  link_url :: "resolved option"

text \<open>\<open>page.locator(selector)\<close>: the elements a selector matches, in document order.\<close>

type_synonym locators = "string \<Rightarrow> link list"

text \<open>
  The two variables of the function, and the selectors handed to \<open>page.locator\<close> so far
  (the calls made to the browser, oldest first).
\<close>

record finder =
  linkFound :: bool
  foundHref :: string
  queried :: "string list"

definition isShortRelativePath :: "string \<Rightarrow> bool" where
  "isShortRelativePath relativePath =
     (relativePath = ''/'' \<or>
      length (filter (\<lambda>p. p \<noteq> []) (splitStr (CHR ''/'') relativePath)) \<le> 1 \<or>
      endsWith relativePath ''/index.html'' \<or> endsWith relativePath ''/home.html'')"

text \<open>How the inner \<open>for\<close> loop ends: at its end or by \<open>break\<close>, or by an exception.\<close>

datatype 'a loop_exit = Finished 'a | Threw 'a

fun scanLocators :: "string \<Rightarrow> link list \<Rightarrow> finder \<Rightarrow> finder loop_exit" where
  "scanLocators currentDomain [] st = Finished st"
| "scanLocators currentDomain (l # ls) st =
     (case link_href l of
        None \<Rightarrow> scanLocators currentDomain ls st
      | Some h \<Rightarrow>
          (if h = [] then scanLocators currentDomain ls st
           else (case link_url l of
                   None \<Rightarrow> Threw st
                 | Some u \<Rightarrow>
                     (if \<not> startsWith (url_href u) currentDomain
                      then scanLocators currentDomain ls st
                      else if h = ''/''
                        then Finished (st\<lparr>foundHref := url_href u, linkFound := True\<rparr>)
                      else if (h = ''/index.html'' \<or> h = ''/home.html'') \<and>
                              (\<not> linkFound st \<or> foundHref st \<noteq> currentDomain @ ''/'')
                        then Finished (st\<lparr>foundHref := url_href u, linkFound := True\<rparr>)
                      else if isShortRelativePath (url_pathname u) \<and> \<not> linkFound st
                        then scanLocators currentDomain ls
                               (st\<lparr>foundHref := url_href u, linkFound := True\<rparr>)
                      else scanLocators currentDomain ls st))))"

fun scanSelectors :: "locators \<Rightarrow> string \<Rightarrow> string list \<Rightarrow> finder \<Rightarrow> finder" where
  "scanSelectors locate currentDomain [] st = st"
| "scanSelectors locate currentDomain (selector # rest) st =
     (let ls = locate selector;
          st1 = st\<lparr>queried := queried st @ [selector]\<rparr>
      in if length ls > 0 then
           (case scanLocators currentDomain ls st1 of
              Threw st2 \<Rightarrow> st2
            | Finished st2 \<Rightarrow>
                (if linkFound st2 \<and>
                    (foundHref st2 = currentDomain @ ''/'' \<or>
                     endsWith (foundHref st2) ''/index.html'' \<or>
                     endsWith (foundHref st2) ''/home.html'')
                 then st2
                 else scanSelectors locate currentDomain rest st2))
         else scanSelectors locate currentDomain rest st1)"

text \<open>
  \<open>origin\<close> is \<open>new URL(initialUrl).origin\<close>, \<open>None\<close> where the constructor throws; the
  \<open>catch\<close> of the function then returns the initial values.
\<close>

definition findHomepageLinkOnce :: "locators \<Rightarrow> string option \<Rightarrow> finder" where
  "findHomepageLinkOnce locate origin =
     (let st = \<lparr>linkFound = False, foundHref = ''N/A'', queried = []\<rparr>
      in case origin of
           None \<Rightarrow> st
         | Some currentDomain \<Rightarrow> scanSelectors locate currentDomain homepageSelectors st)"

subsection \<open>The trials of the combined-averages script\<close>


record loadMeasure =
  domContentLoadedTime :: rat
  loadTime :: rat
  performanceTiming :: "navTiming option"
  domElements :: nat

datatype load_result = LoadDone loadMeasure | LoadFailed js_error

record loadVisit =
  load_responses :: "response list"
  load_result :: load_result

definition toMB :: "jsnum \<Rightarrow> jsnum" where
  "toMB n = (case n of NaN \<Rightarrow> NaN | Num b \<Rightarrow> Num (toFixed2 (b / (1024 * 1024))))"

definition apiTime :: "navTiming option \<Rightarrow> (navTiming \<Rightarrow> rat) \<Rightarrow> jsval" where
  "apiTime t end = (case t of None \<Rightarrow> Str ''N/A''
                    | Some e \<Rightarrow> Number (Num (toFixed2 (end e - startTime e))))"



text \<open>
  \<open>measureHomepageNavigation\<close> catches the exception of \<open>goto\<close> itself; the loop around
  it catches the one of \<open>newPage\<close>.
\<close>

datatype goto_result = GotoFailed js_error | GotoDone rat

datatype nav_try = NewPageFailed js_error | PageOpened goto_result

definition measureHomepageNavigation :: "string \<Rightarrow> goto_result \<Rightarrow> jsobj" where
  "measureHomepageNavigation homepageTargetUrl g =
     (if homepageTargetUrl = ''N/A''
      then [(''homepageLinkFound'', Bool False), (''homepageLinkClickTime'', Str ''N/A'')]
      else (case g of
              GotoFailed e \<Rightarrow>
                [(''homepageLinkFound'', Bool False), (''homepageLinkClickTime'', Str ''N/A'')]
            | GotoDone ms \<Rightarrow>
                [(''homepageLinkFound'', Bool True),
                 (''homepageLinkClickTime'', Number (Num (toFixed2 ms)))]))"

text \<open>
  The homepage navigation loop: three measured tries when the link finder found a link,
  three placeholder objects otherwise.
\<close>

definition homepageNavigationTries :: "bool \<Rightarrow> string \<Rightarrow> (nat \<Rightarrow> nav_try) \<Rightarrow> jsobj list" where
  "homepageNavigationTries homepageLinkFoundOverall identifiedHomepageHref tries =
     (if homepageLinkFoundOverall then
        map (\<lambda>i. case tries i of
                   PageOpened g \<Rightarrow> measureHomepageNavigation identifiedHomepageHref g
                 | NewPageFailed e \<Rightarrow>
                     [(''error'', Str (err_message e)), (''homepageLinkFound'', Bool False),
                      (''homepageLinkClickTime'', Str ''N/A'')])
          [0, 1, 2]
      else replicate 3 [(''homepageLinkFound'', Bool False), (''homepageLinkClickTime'', Str ''N/A'')])"

subsection \<open>The trials of the individual-tries script\<close>

definition getPageLoadMetrics :: "loadVisit \<Rightarrow> js_error + jsobj" where
  "getPageLoadMetrics v =
     (case load_result v of
        LoadFailed e \<Rightarrow> Inl e
      | LoadDone m \<Rightarrow>
          (let bytes = foldl onResponse_pageLoad (Num 0) (load_responses v)
           in Inr [(''domContentLoadedTime_ms'', Number (Num (toFixed2 (domContentLoadedTime m)))),
                   (''loadTime_ms'', Number (Num (toFixed2 (loadTime m)))),
                   (''pageLoadApiTime_ms'', apiTime (performanceTiming m) loadEventEnd),
                   (''domContentLoadedApiTime_ms'',
                      apiTime (performanceTiming m) domContentLoadedEventEnd),
                   (''pageSize_Bytes'', Number bytes),
                   (''pageSize_MB'', Number (toMB bytes)),
                   (''domElementCount'', Number (Num (of_nat (domElements m))))]))"

text \<open>
  One pass of a measuring loop: the metrics, or, after an exception, the object whose
  seven metric fields hold the status string (\<open>DNF\<close> for a \<open>TimeoutError\<close>, else \<open>N/A\<close>).
\<close>

definition pageLoadTry_individual :: "loadVisit \<Rightarrow> jsobj" where
  "pageLoadTry_individual v =
     (case getPageLoadMetrics v of
        Inr m \<Rightarrow> m
      | Inl error \<Rightarrow>
          (let status = (if err_name error = ''TimeoutError'' then ''DNF'' else ''N/A'')
           in [(''error'', Str (err_message error)),
               (''domContentLoadedTime_ms'', Str status), (''loadTime_ms'', Str status),
               (''pageLoadApiTime_ms'', Str status), (''domContentLoadedApiTime_ms'', Str status),
               (''pageSize_Bytes'', Str status), (''pageSize_MB'', Str status),
               (''domElementCount'', Str status)]))"

section \<open>The words of the specification\<close>

text \<open>
  The byte count of a response: the value of the content-length header when the header is
  present (and not empty), otherwise the length of the materialized body; none when the
  body cannot be materialized.
\<close>

definition byteCount :: "response \<Rightarrow> jsnum option" where
  "byteCount r =
     (if truthy (content_length r) then Some (parseInt (the (content_length r)))
      else (case body r of Body len \<Rightarrow> Some (Num (of_nat len)) | BodyError msg \<Rightarrow> None))"

definition bytesOf :: "response \<Rightarrow> jsnum" where
  "bytesOf r = (case byteCount r of Some n \<Rightarrow> n | None \<Rightarrow> Num 0)"

text \<open>Same-origin: the response's hostname is the hostname of the visit's starting URL.\<close>

definition sameOrigin :: "url \<Rightarrow> response \<Rightarrow> bool" where
  "sameOrigin start r = (hostname (resp_url r) = hostname start)"

definition jssum :: "jsnum list \<Rightarrow> jsnum" where
  "jssum ns = foldr jsadd ns (Num 0)"

text \<open>A successful response whose byte count is available.\<close>

definition success2xx :: "response \<Rightarrow> bool" where
  "success2xx r = (200 \<le> status r \<and> status r < 300 \<and> byteCount r \<noteq> None)"

text \<open>
  What the accountant is to report for a list of responses: the sum of all byte counts,
  the sum over the same-origin ones, the sum over the others, and their number.
\<close>

definition reports :: "'a counters_scheme \<Rightarrow> url \<Rightarrow> response list \<Rightarrow> bool" where
  "reports c start rs =
     (totalTransferredBytes c = jssum (map bytesOf rs) \<and>
      totalSameOriginTransferredBytes c = jssum (map bytesOf (filter (sameOrigin start) rs)) \<and>
      totalCrossOriginTransferredBytes c =
        jssum (map bytesOf (filter (\<lambda>r. \<not> sameOrigin start r) rs)) \<and>
      totalTransferredResources c = length rs)"

text \<open>The counters after a list of counted responses, from any starting values.\<close>

definition tallied :: "url \<Rightarrow> response list \<Rightarrow> 'a counters_scheme \<Rightarrow> 'a counters_scheme" where
  "tallied start rs c = c\<lparr>
     totalTransferredBytes := jsadd (totalTransferredBytes c) (jssum (map bytesOf rs)),
     totalSameOriginTransferredBytes :=
       jsadd (totalSameOriginTransferredBytes c)
         (jssum (map bytesOf (filter (sameOrigin start) rs))),
     totalCrossOriginTransferredBytes :=
       jsadd (totalCrossOriginTransferredBytes c)
         (jssum (map bytesOf (filter (\<lambda>r. \<not> sameOrigin start r) rs))),
     totalTransferredResources := totalTransferredResources c + length rs\<rparr>"





definition counterFields :: "trial \<Rightarrow> jsval list" where
  "counterFields t = [totalTransferred_bytes t, totalSameOriginTransferred_bytes t,
     totalCrossOriginTransferred_bytes t, totalTransferredResources_key t]"

definition counterValues :: "'a counters_scheme \<Rightarrow> jsval list" where
  "counterValues c = [Number (totalTransferredBytes c),
     Number (totalSameOriginTransferredBytes c), Number (totalCrossOriginTransferredBytes c),
     Number (Num (of_nat (totalTransferredResources c)))]"

definition metricKeys :: "string list" where
  "metricKeys = [''domContentLoadedTime_ms'', ''loadTime_ms'', ''pageLoadApiTime_ms'',
     ''domContentLoadedApiTime_ms'', ''pageSize_Bytes'', ''pageSize_MB'', ''domElementCount'']"



text \<open>The placeholder object of a skipped homepage navigation.\<close>

definition placeholder :: jsobj where
  "placeholder = [(''homepageLinkFound'', Bool False), (''homepageLinkClickTime'', Str ''N/A'')]"

text \<open>
  The first and the third primary trial of a site, whether a trial detected a link (its
  \<open>otherPage\<close> is neither sentinel), and the labels of the secondary trials.
\<close>

definition firstTrial_csv :: "browser \<Rightarrow> string \<Rightarrow> trial option" where
  "firstTrial_csv browse site = getPageMetrics_csv (browse site ''iter-1'')"

definition firstTrial_json :: "browser \<Rightarrow> string \<Rightarrow> trial option" where
  "firstTrial_json browse site = getPageMetrics_json (browse site ''iter-1'')"

definition thirdTrial_csv :: "browser \<Rightarrow> string \<Rightarrow> trial option" where
  "thirdTrial_csv browse site = getPageMetrics_csv (browse site ''iter-3'')"

definition thirdTrial_json :: "browser \<Rightarrow> string \<Rightarrow> trial option" where
  "thirdTrial_json browse site = getPageMetrics_json (browse site ''iter-3'')"

definition otherNames :: "string list" where
  "otherNames = [''other-iter-1'', ''other-iter-2'', ''other-iter-3'']"

text \<open>Every URL the browser is asked for parses.\<close>

definition allUrlsValid :: "browser \<Rightarrow> bool" where
  "allUrlsValid browse = (\<forall>u n. visit_url (browse u n) \<noteq> None)"

definition linkDetected :: "trial \<Rightarrow> bool" where
  "linkDetected t = (otherPage t \<noteq> ''N/A'' \<and> otherPage t \<noteq> ''DNF'')"


section \<open>Concrete inputs\<close>

text \<open>
  A visit of \<open>http://example.com/\<close>; a \<open>200\<close> response from a host with a content-length
  header; a \<open>404\<close> response; a \<open>304\<close> response with a content-length header; and a
  redirect response to a target, without content-length, observed while the page is still
  at \<open>about:blank\<close>.
\<close>

definition exampleStart :: url where
  "exampleStart = \<lparr>hostname = ''example.com'', pathname = ''/''\<rparr>"

definition response200 :: "string \<Rightarrow> string \<Rightarrow> response" where
  "response200 host len = \<lparr>status = 200, resp_url = \<lparr>hostname = host, pathname = ''/''\<rparr>,
     content_length = Some len, body = Body 0, location = None, page_at = AboutBlank\<rparr>"

definition response404 :: response where
  "response404 = \<lparr>status = 404, resp_url = exampleStart, content_length = Some ''512'',
     body = Body 512, location = None, page_at = PageAt exampleStart\<rparr>"

definition response304 :: response where
  "response304 = \<lparr>status = 304, resp_url = exampleStart, content_length = Some ''10'',
     body = Body 0, location = None, page_at = PageAt exampleStart\<rparr>"

definition redirectTo :: "int \<Rightarrow> url \<Rightarrow> response" where
  "redirectTo code target = \<lparr>status = code, resp_url = exampleStart, content_length = None,
     body = BodyError ''Response body is unavailable for redirect responses'',
     location = Some target, page_at = AboutBlank\<rparr>"

text \<open>Two redirect targets on another host: the same path, and another path.\<close>

definition wwwHome :: url where
  "wwwHome = \<lparr>hostname = ''www.example.com'', pathname = ''/''\<rparr>"

definition wwwWelcome :: url where
  "wwwWelcome = \<lparr>hostname = ''www.example.com'', pathname = ''/welcome''\<rparr>"

text \<open>
  Two exceptions of \<open>page.goto\<close>; a visit that times out after one counted response; a
  visit that fails at once; a page-load measurement that throws.
\<close>

definition timeoutError :: js_error where
  "timeoutError = \<lparr>err_name = ''TimeoutError'',
     err_message = ''page.goto: Timeout 60000ms exceeded.''\<rparr>"

definition dnsError :: js_error where
  "dnsError = \<lparr>err_name = ''Error'',
     err_message = ''page.goto: net::ERR_NAME_NOT_RESOLVED''\<rparr>"

definition timedOutVisit :: visit where
  "timedOutVisit = \<lparr>visit_url = Some exampleStart,
     visit_responses = [response200 ''example.com'' ''1000''],
     visit_result = Failed timeoutError\<rparr>"

definition failedVisit :: visit where
  "failedVisit = \<lparr>visit_url = Some exampleStart, visit_responses = [],
     visit_result = Failed dnsError\<rparr>"

definition failedLoad :: "js_error \<Rightarrow> loadVisit" where
  "failedLoad e = \<lparr>load_responses = [], load_result = LoadFailed e\<rparr>"

text \<open>
  The home page of \<open>https://example.com\<close> with a link to the root and a relative link;
  a page under \<open>/blog/\<close> with a root-relative link; the visits that load them.
\<close>

definition aboutPage :: page where
  "aboutPage = \<lparr>page_url = ''https://example.com/'', page_hostname = ''example.com'',
     navigation = Some \<lparr>startTime = 0, loadEventEnd = 1234567 / 1000,
       domContentLoadedEventEnd = 800\<rparr>,
     elementCount = 42,
     anchors = [\<lparr>href = Some ''/'', href_url = None\<rparr>,
                \<lparr>href = Some ''about.html'', href_url = None\<rparr>]\<rparr>"

definition aboutVisit :: visit where
  "aboutVisit = \<lparr>visit_url = Some exampleStart, visit_responses = [],
     visit_result = Loaded aboutPage\<rparr>"

definition blogPage :: page where
  "blogPage = \<lparr>page_url = ''https://example.com/blog/'', page_hostname = ''example.com'',
     navigation = Some \<lparr>startTime = 0, loadEventEnd = 900, domContentLoadedEventEnd = 800\<rparr>,
     elementCount = 42,
     anchors = [\<lparr>href = Some ''/about'', href_url = None\<rparr>]\<rparr>"

definition blogVisit :: visit where
  "blogVisit = \<lparr>visit_url = Some \<lparr>hostname = ''example.com'', pathname = ''/blog/''\<rparr>,
     visit_responses = [], visit_result = Loaded blogPage\<rparr>"

text \<open>
  A browser for which the first visit of \<open>https://example.com\<close> times out, the later ones
  load the home page, and every other URL fails to resolve.
\<close>

definition flakyBrowser :: browser where
  "flakyBrowser u n =
     (if u = ''https://example.com'' \<and> n \<noteq> ''iter-1'' then aboutVisit
      else if u = ''https://example.com'' then timedOutVisit
      else failedVisit)"

text \<open>A browser for which nothing loads.\<close>

definition deadBrowser :: browser where
  "deadBrowser u n = failedVisit"


text \<open>
  A page whose only anchor is \<open><a href="/">\<close>, loaded at the origin \<open>org\<close>: the anchor
  matches the first and the last selector of the list.
\<close>

definition rootLink :: "string \<Rightarrow> link" where
  "rootLink org = \<lparr>link_href = Some ''/'',
     link_url = Some \<lparr>url_href = org @ ''/'', url_pathname = ''/''\<rparr>\<rparr>"

definition onlyRoot :: "string \<Rightarrow> locators" where
  \<open>onlyRoot org selector =
     (if selector = ''a[href="/"]'' \<or> selector = ''a[href*="/"]'' then [rootLink org]
      else [])\<close>

section \<open>Byte Accountant: properties\<close>

lemmas accountant_eval = accountant_flag_def accountant_json_def onResponse_flag_def
  onResponse_json_def redirectTest_def redirectTarget_def resetCounters_def countResponse_def
  truthy_def addBytes_def counters_flag0_def counters0_def parseInt_def isSpace_def
  isDigit_def digitsValue_def exampleStart_def response200_def response404_def response304_def
  redirectTo_def
  wwwHome_def wwwWelcome_def

lemma jsadd_assoc: "jsadd (jsadd a b) c = jsadd a (jsadd b c)"
  by (cases a; cases b; cases c) simp_all

lemma jsadd_zero: "jsadd a (Num 0) = a"
  by (cases a) simp_all

lemma jsadd_zero_left: "jsadd (Num 0) a = a"
  by (cases a) simp_all

lemma countResponse_counted:
  assumes "200 \<le> status r" "status r < 400" "byteCount r = Some n"
  shows "countResponse start r c = Inr (addBytes start r n c)"
  using assms by (auto simp: countResponse_def byteCount_def split: if_splits body_result.splits)


lemma onResponse_flag_2xx:
  assumes "success2xx r"
  shows "onResponse_flag start c r = addBytes start r (bytesOf r) c"
proof -
  from assms obtain n where n: "byteCount r = Some n" and s: "200 \<le> status r" "status r < 300"
    by (auto simp: success2xx_def)
  have "redirectTest start r c = Some False"
    using s by (simp add: redirectTest_def)
  moreover have "countResponse start r c = Inr (addBytes start r n c)"
    using s n by (simp add: countResponse_counted)
  ultimately show ?thesis
    using n by (simp add: onResponse_flag_def bytesOf_def)
qed

lemma onResponse_json_2xx:
  assumes "success2xx r"
  shows "onResponse_json start c r = addBytes start r (bytesOf r) c"
proof -
  from assms obtain n where n: "byteCount r = Some n" and s: "200 \<le> status r" "status r < 300"
    by (auto simp: success2xx_def)
  have "countResponse start r c = Inr (addBytes start r n c)"
    using s n by (simp add: countResponse_counted)
  then show ?thesis
    using n by (simp add: onResponse_json_def bytesOf_def)
qed

lemma tallied_Nil: "tallied start [] c = c"
  by (simp add: tallied_def jssum_def jsadd_zero)

lemma tallied_Cons: "tallied start (r # rs) c = tallied start rs (addBytes start r (bytesOf r) c)"
  by (simp add: tallied_def jssum_def jsadd_zero jsadd_assoc addBytes_def sameOrigin_def Let_def)

lemma foldl_flag_2xx:
  "list_all success2xx rs \<Longrightarrow> foldl (onResponse_flag start) c rs = tallied start rs c"
  by (induction rs arbitrary: c) (simp_all add: tallied_Nil tallied_Cons onResponse_flag_2xx)

lemma foldl_json_2xx:
  "list_all success2xx rs \<Longrightarrow> foldl (onResponse_json start) c rs = tallied start rs c"
  by (induction rs arbitrary: c) (simp_all add: tallied_Nil tallied_Cons onResponse_json_2xx)

lemma reports_tallied_flag:
  "reports (tallied start rs counters_flag0) start rs \<and>
   \<not> redirected (tallied start rs counters_flag0)"
  by (simp add: reports_def tallied_def counters_flag0_def jsadd_zero_left)

lemma reports_tallied_json: "reports (tallied start rs counters0) start rs"
  by (simp add: reports_def tallied_def counters0_def jsadd_zero_left)

lemma example_flag:
  "accountant_flag exampleStart
     [response200 ''example.com'' ''1000'', response200 ''cdn.example.net'' ''2000'']
     = \<lparr>totalTransferredBytes = Num 3000, totalSameOriginTransferredBytes = Num 1000,
        totalCrossOriginTransferredBytes = Num 2000, totalTransferredResources = 2,
        redirected = False\<rparr>"
  by (simp add: accountant_eval)

lemma example_json:
  "accountant_json exampleStart
     [response200 ''example.com'' ''1000'', response200 ''cdn.example.net'' ''2000'']
     = \<lparr>totalTransferredBytes = Num 3000, totalSameOriginTransferredBytes = Num 1000,
        totalCrossOriginTransferredBytes = Num 2000, totalTransferredResources = 2\<rparr>"
  by (simp add: accountant_eval)

lemma success_example:
  "list_all success2xx
     [response200 ''example.com'' ''1000'', response200 ''cdn.example.net'' ''2000'']"
  by (simp add: success2xx_def byteCount_def truthy_def response200_def)

text \<open>
  Claim C1. For every list of successful responses (status \<open>2xx\<close>, byte count available)
  delivered during one visit, both variants of the accountant end with: the total equal to
  the sum of the byte counts (the parsed content-length header when present, else the
  length of the body), the same-origin counter equal to the sum over the responses whose
  hostname is the hostname of the starting URL, the cross-origin counter equal to the sum
  over the others, and the resource counter equal to the number of responses; no reset
  happens. For the content-lengths \<open>1000\<close> (same origin) and \<open>2000\<close> (cross origin) the
  result is total \<open>3000\<close>, same-origin \<open>1000\<close>, cross-origin \<open>2000\<close>, count \<open>2\<close>.
\<close>

theorem byte_accountant_tally:
  "(list_all success2xx rs \<longrightarrow>
      reports (accountant_flag start rs) start rs \<and> \<not> redirected (accountant_flag start rs) \<and>
      reports (accountant_json start rs) start rs) \<and>
   accountant_flag exampleStart
     [response200 ''example.com'' ''1000'', response200 ''cdn.example.net'' ''2000'']
     = \<lparr>totalTransferredBytes = Num 3000, totalSameOriginTransferredBytes = Num 1000,
        totalCrossOriginTransferredBytes = Num 2000, totalTransferredResources = 2,
        redirected = False\<rparr> \<and>
   accountant_json exampleStart
     [response200 ''example.com'' ''1000'', response200 ''cdn.example.net'' ''2000'']
     = \<lparr>totalTransferredBytes = Num 3000, totalSameOriginTransferredBytes = Num 1000,
        totalCrossOriginTransferredBytes = Num 2000, totalTransferredResources = 2\<rparr>"
proof (intro conjI impI)
  assume ok: "list_all success2xx rs"
  show "reports (accountant_flag start rs) start rs"
    using ok reports_tallied_flag [of start rs] by (simp add: accountant_flag_def foldl_flag_2xx)
  show "\<not> redirected (accountant_flag start rs)"
    using ok reports_tallied_flag [of start rs] by (simp add: accountant_flag_def foldl_flag_2xx)
  show "reports (accountant_json start rs) start rs"
    using ok reports_tallied_json [of start rs] by (simp add: accountant_json_def foldl_json_2xx)
qed (rule example_flag, rule example_json)

theorem byte_accountant_tally_witness:
  "list_all success2xx
     [response200 ''example.com'' ''1000'', response200 ''cdn.example.net'' ''2000''] \<and>
   reports (accountant_flag exampleStart
       [response200 ''example.com'' ''1000'', response200 ''cdn.example.net'' ''2000''])
     exampleStart [response200 ''example.com'' ''1000'', response200 ''cdn.example.net'' ''2000'']"
  using byte_accountant_tally
      [of "[response200 ''example.com'' ''1000'', response200 ''cdn.example.net'' ''2000'']"
          exampleStart]
    success_example
  by blast



text \<open>
  The filter lets the statuses from \<open>300\<close> to \<open>399\<close> through: a \<open>304\<close> response with a
  content-length header of \<open>10\<close> is counted by each handler.
\<close>

lemma status_3xx_counted:
  "onResponse_pageLoad (Num 0) response304 = Num 10 \<and>
   totalTransferredBytes (onResponse_flag exampleStart counters_flag0 response304) = Num 10 \<and>
   totalTransferredResources (onResponse_json exampleStart counters0 response304) = 1"
  by (simp add: onResponse_pageLoad_def accountant_eval)

subsection \<open>The redirect reset\<close>












text \<open>
  The JSON script has no flag and no test of the target: its reset is the \<open>catch\<close> of the
  exception that \<open>response.body()\<close> throws for a redirect response. On the same three
  responses it ends with the same numbers.
\<close>

lemma example_redirect_json:
  "accountant_json exampleStart
     [response200 ''example.com'' ''1000'', redirectTo 301 wwwHome,
      response200 ''www.example.com'' ''2000'']
     = \<lparr>totalTransferredBytes = Num 2000, totalSameOriginTransferredBytes = Num 0,
        totalCrossOriginTransferredBytes = Num 2000, totalTransferredResources = 1\<rparr>"
  by (simp add: accountant_eval)





section \<open>Navigation Trial Runner: properties\<close>

lemmas trial_eval = getPageMetrics_csv_def getPageMetrics_json_def sentinelTrial_def
  timeoutError_def dnsError_def timedOutVisit_def failedVisit_def failedLoad_def

lemma individual_failed:
  "load_result lv = LoadFailed e \<Longrightarrow>
   list_all (\<lambda>k. get (pageLoadTry_individual lv) k =
                 Str (if err_name e = ''TimeoutError'' then ''DNF'' else ''N/A'')) metricKeys"
  by (simp add: pageLoadTry_individual_def getPageLoadMetrics_def metricKeys_def get_def Let_def)

lemma csv_timeout:
  assumes "visit_url v = Some url" "visit_result v = Failed e" "err_name e = ''TimeoutError''"
  shows "\<exists>t. getPageMetrics_csv v = Some t \<and>
           pageLoadTime_ms t = Str ''DNF'' \<and> domContentLoadedTime_ms t = Str ''DNF'' \<and>
           domElementCount t = Str ''DNF'' \<and> actualPage t = ''DNF'' \<and> otherPage t = ''DNF'' \<and>
           counterFields t = counterValues (accountant_flag url (visit_responses v))"
  using assms by (simp add: getPageMetrics_csv_def counterFields_def counterValues_def Let_def)

lemma json_timeout:
  assumes "visit_url v = Some url" "visit_result v = Failed e" "err_name e = ''TimeoutError''"
  shows "getPageMetrics_json v = Some (sentinelTrial ''DNF'')"
  using assms by (simp add: getPageMetrics_json_def Let_def)

lemma other_failure:
  assumes "visit_url v = Some url" "visit_result v = Failed e" "err_name e \<noteq> ''TimeoutError''"
  shows "getPageMetrics_json v = Some (sentinelTrial ''N/A'')"
    and "getPageMetrics_csv v = Some (sentinelTrial ''N/A'')"
  using assms by (simp_all add: getPageMetrics_json_def getPageMetrics_csv_def Let_def)

text \<open>
  Claim C3, as stated, fails in the CSV script: when the navigation times out after a
  response of \<open>1000\<close> bytes has been counted, the byte and resource fields of the trial
  result hold \<open>1000\<close> and \<open>1\<close>, not the \<open>DNF\<close> sentinel.
\<close>

theorem timeout_keeps_counters_counterexample:
  "visit_result timedOutVisit = Failed timeoutError \<and>
   err_name timeoutError = ''TimeoutError'' \<and>
   map_option totalTransferred_bytes (getPageMetrics_csv timedOutVisit) =
     Some (Number (Num 1000)) \<and>
   map_option totalTransferredResources_key (getPageMetrics_csv timedOutVisit) =
     Some (Number (Num 1))"
  by (simp add: trial_eval accountant_eval)

text \<open>
  Claim C3, amended. When a navigation trial fails with a \<open>TimeoutError\<close>, the JSON script
  returns the \<open>DNF\<close> sentinel in every field, and the individual-tries script stores it in
  each of the seven metric fields; the CSV script returns \<open>DNF\<close> in the two timing fields,
  the element count, the resolved URL and the detected link, and the values of its four
  counters at that moment in the byte and resource fields. When the trial fails with any
  other error, every field is the \<open>N/A\<close> sentinel in all three scripts.
\<close>

theorem failed_trial_sentinels:
  "(visit_url v = Some url \<and> visit_result v = Failed e \<and> err_name e = ''TimeoutError'' \<longrightarrow>
      getPageMetrics_json v = Some (sentinelTrial ''DNF'') \<and>
      (\<exists>t. getPageMetrics_csv v = Some t \<and>
         pageLoadTime_ms t = Str ''DNF'' \<and> domContentLoadedTime_ms t = Str ''DNF'' \<and>
         domElementCount t = Str ''DNF'' \<and> actualPage t = ''DNF'' \<and> otherPage t = ''DNF'' \<and>
         counterFields t = counterValues (accountant_flag url (visit_responses v)))) \<and>
   (visit_url v = Some url \<and> visit_result v = Failed e \<and> err_name e \<noteq> ''TimeoutError'' \<longrightarrow>
      getPageMetrics_json v = Some (sentinelTrial ''N/A'') \<and>
      getPageMetrics_csv v = Some (sentinelTrial ''N/A'')) \<and>
   (load_result lv = LoadFailed e \<longrightarrow>
      list_all (\<lambda>k. get (pageLoadTry_individual lv) k =
                    Str (if err_name e = ''TimeoutError'' then ''DNF'' else ''N/A'')) metricKeys)"
  using csv_timeout [of v url e] json_timeout [of v url e] other_failure [of v url e]
    individual_failed [of lv e]
  by blast

theorem failed_trial_sentinels_witness:
  "visit_result timedOutVisit = Failed timeoutError \<and>
   err_name timeoutError = ''TimeoutError'' \<and>
   getPageMetrics_json timedOutVisit = Some (sentinelTrial ''DNF'') \<and>
   visit_result failedVisit = Failed dnsError \<and> err_name dnsError \<noteq> ''TimeoutError'' \<and>
   getPageMetrics_csv failedVisit = Some (sentinelTrial ''N/A'') \<and>
   load_result (failedLoad timeoutError) = LoadFailed timeoutError \<and>
   get (pageLoadTry_individual (failedLoad timeoutError)) ''loadTime_ms'' = Str ''DNF''"
proof -
  have a: "visit_url timedOutVisit = Some exampleStart \<and>
           visit_result timedOutVisit = Failed timeoutError \<and>
           err_name timeoutError = ''TimeoutError''"
    by (simp add: trial_eval)
  have b: "visit_url failedVisit = Some exampleStart \<and>
           visit_result failedVisit = Failed dnsError \<and> err_name dnsError \<noteq> ''TimeoutError''"
    by (simp add: trial_eval)
  have c: "load_result (failedLoad timeoutError) = LoadFailed timeoutError"
    by (simp add: trial_eval)
  note timed = failed_trial_sentinels
    [of timedOutVisit exampleStart timeoutError "failedLoad timeoutError"]
  note failed = failed_trial_sentinels [of failedVisit exampleStart dnsError "failedLoad dnsError"]
  have d: "getPageMetrics_json timedOutVisit = Some (sentinelTrial ''DNF'')"
    using a timed by blast
  have e: "getPageMetrics_csv failedVisit = Some (sentinelTrial ''N/A'')"
    using b failed by blast
  have f: "get (pageLoadTry_individual (failedLoad timeoutError)) ''loadTime_ms'' = Str ''DNF''"
    using a c timed by (simp add: metricKeys_def)
  show ?thesis
    using a b c d e f by blast
qed

subsection \<open>What a metric field can hold\<close>







lemma getPageMetrics_total:
  "visit_url v \<noteq> None \<Longrightarrow> getPageMetrics_csv v \<noteq> None \<and> getPageMetrics_json v \<noteq> None"
  by (cases "visit_result v")
     (auto simp: getPageMetrics_csv_def getPageMetrics_json_def Let_def)




section \<open>Batch Driver: properties\<close>

lemma trialNames_iter: "trialNames p = [p @ ''1'', p @ ''2'', p @ ''3'']"
  by (simp add: trialNames_def)

lemma those_Some: "those xs = Some ys \<Longrightarrow> xs = map Some ys"
proof (induction xs arbitrary: ys)
  case Nil
  then show ?case by simp
next
  case (Cons x xs)
  then obtain y zs where "x = Some y" "those xs = Some zs" "ys = y # zs"
    by (auto split: option.splits)
  then show ?case using Cons.IH by simp
qed

lemma those3:
  assumes "those [a, b, c] = Some xs"
  shows "\<exists>x y z. a = Some x \<and> b = Some y \<and> c = Some z \<and> xs = [x, y, z]"
proof -
  have "[a, b, c] = map Some xs"
    using assms by (rule those_Some)
  then show ?thesis
    by (cases xs; simp; cases "tl xs"; simp; cases "tl (tl xs)"; auto)
qed

lemma loadSite_csv_Some:
  assumes "loadSite_csv browse name site = Some pd"
  shows "\<exists>first third.
           firstTrial_csv browse site = Some first \<and> thirdTrial_csv browse site = Some third \<and>
           actualSiteUrl pd = actualPage first \<and>
           map Some (otherMetrics pd) =
             (if linkDetected third
              then map (\<lambda>n. getPageMetrics_csv (browse (secondaryUrl_csv third) n)) otherNames
              else [])"
proof -
  let ?primary = "those (map (\<lambda>n. getPageMetrics_csv (browse site n)) (trialNames ''iter-''))"
  obtain idx where idx: "?primary = Some idx"
    using assms by (cases ?primary) (simp_all add: loadSite_csv_def)
  then obtain x y z where x: "getPageMetrics_csv (browse site ''iter-1'') = Some x"
    and z: "getPageMetrics_csv (browse site ''iter-3'') = Some z" and l: "idx = [x, y, z]"
    using those3 [of "getPageMetrics_csv (browse site ''iter-1'')"
                     "getPageMetrics_csv (browse site ''iter-2'')"
                     "getPageMetrics_csv (browse site ''iter-3'')" idx]
    by (auto simp: trialNames_iter)
  let ?secondary = "if otherPage z \<noteq> ''N/A'' \<and> otherPage z \<noteq> ''DNF''
      then those (map (\<lambda>n. getPageMetrics_csv (browse (secondaryUrl_csv z) n))
                   (trialNames ''other-iter-''))
      else Some []"
  have unfolded: "loadSite_csv browse name site =
      (case ?secondary of
         None \<Rightarrow> None
       | Some otherPageMetricTimes \<Rightarrow>
           Some \<lparr>siteUrl = site, actualSiteUrl = actualPage x,
             metrics = idx, otherMetrics = otherPageMetricTimes, dataset = name\<rparr>)"
    unfolding loadSite_csv_def idx Let_def option.case l by (simp split: option.splits)
  obtain om where om: "?secondary = Some om"
    using assms unfolding unfolded by (cases ?secondary) simp_all
  have pd: "pd = \<lparr>siteUrl = site, actualSiteUrl = actualPage x,
             metrics = idx, otherMetrics = om, dataset = name\<rparr>"
    using assms unfolding unfolded om by simp
  have "map Some om =
          (if linkDetected z
           then map (\<lambda>n. getPageMetrics_csv (browse (secondaryUrl_csv z) n)) otherNames
           else [])"
  proof (cases "linkDetected z")
    case True
    then have "those (map (\<lambda>n. getPageMetrics_csv (browse (secondaryUrl_csv z) n))
                        (trialNames ''other-iter-'')) = Some om"
      using om by (simp add: linkDetected_def)
    then show ?thesis
      using True those_Some by (fastforce simp: trialNames_iter otherNames_def)
  next
    case False
    then show ?thesis
      using om by (auto simp: linkDetected_def)
  qed
  then show ?thesis
    using x z pd by (simp add: firstTrial_csv_def thirdTrial_csv_def)
qed

lemma loadSite_json_Some:
  assumes "loadSite_json browse site = Some pd"
  shows "\<exists>first third.
           firstTrial_json browse site = Some first \<and> thirdTrial_json browse site = Some third \<and>
           actualSiteUrl pd = actualPage first \<and>
           map Some (otherMetrics pd) =
             (if linkDetected third
              then map (\<lambda>n. getPageMetrics_json (browse (secondaryUrl_json site third) n)) otherNames
              else [])"
proof -
  let ?primary = "those (map (\<lambda>n. getPageMetrics_json (browse site n)) (trialNames ''iter-''))"
  obtain idx where idx: "?primary = Some idx"
    using assms by (cases ?primary) (simp_all add: loadSite_json_def)
  then obtain x y z where x: "getPageMetrics_json (browse site ''iter-1'') = Some x"
    and z: "getPageMetrics_json (browse site ''iter-3'') = Some z" and l: "idx = [x, y, z]"
    using those3 [of "getPageMetrics_json (browse site ''iter-1'')"
                     "getPageMetrics_json (browse site ''iter-2'')"
                     "getPageMetrics_json (browse site ''iter-3'')" idx]
    by (auto simp: trialNames_iter)
  let ?secondary = "if otherPage z \<noteq> ''N/A'' \<and> otherPage z \<noteq> ''DNF''
      then those (map (\<lambda>n. getPageMetrics_json (browse (secondaryUrl_json site z) n))
                   (trialNames ''other-iter-''))
      else Some []"
  have unfolded: "loadSite_json browse site =
      (case ?secondary of
         None \<Rightarrow> None
       | Some otherPageMetricTimes \<Rightarrow>
           Some \<lparr>siteUrl = site, actualSiteUrl = actualPage x,
             metrics = idx, otherMetrics = otherPageMetricTimes\<rparr>)"
    unfolding loadSite_json_def idx Let_def option.case l by (simp split: option.splits)
  obtain om where om: "?secondary = Some om"
    using assms unfolding unfolded by (cases ?secondary) simp_all
  have pd: "pd = \<lparr>siteUrl = site, actualSiteUrl = actualPage x,
             metrics = idx, otherMetrics = om\<rparr>"
    using assms unfolding unfolded om by simp
  have "map Some om =
          (if linkDetected z
           then map (\<lambda>n. getPageMetrics_json (browse (secondaryUrl_json site z) n)) otherNames
           else [])"
  proof (cases "linkDetected z")
    case True
    then have "those (map (\<lambda>n. getPageMetrics_json (browse (secondaryUrl_json site z) n))
                        (trialNames ''other-iter-'')) = Some om"
      using om by (simp add: linkDetected_def)
    then show ?thesis
      using True those_Some by (fastforce simp: trialNames_iter otherNames_def)
  next
    case False
    then show ?thesis
      using om by (auto simp: linkDetected_def)
  qed
  then show ?thesis
    using x z pd by (simp add: firstTrial_json_def thirdTrial_json_def)
qed

lemma those_map_total: "(\<And>x. f x \<noteq> None) \<Longrightarrow> those (map f xs) \<noteq> None"
  by (induction xs) (auto split: option.splits)

lemma loadSite_total:
  assumes "allUrlsValid browse"
  shows "loadSite_csv browse name site \<noteq> None" and "loadSite_json browse site \<noteq> None"
proof -
  have c: "\<And>u n. getPageMetrics_csv (browse u n) \<noteq> None"
    and j: "\<And>u n. getPageMetrics_json (browse u n) \<noteq> None"
    using assms getPageMetrics_total by (simp_all add: allUrlsValid_def)
  have c1: "\<And>u ns. those (map (\<lambda>n. getPageMetrics_csv (browse u n)) ns) \<noteq> None"
    using c by (rule those_map_total)
  have j1: "\<And>u ns. those (map (\<lambda>n. getPageMetrics_json (browse u n)) ns) \<noteq> None"
    using j by (rule those_map_total)
  obtain ic where ic: "those (map (\<lambda>n. getPageMetrics_csv (browse site n))
                                (trialNames ''iter-'')) = Some ic"
    using c1 by blast
  obtain oc where oc:
    "(if otherPage (ic ! 2) \<noteq> ''N/A'' \<and> otherPage (ic ! 2) \<noteq> ''DNF''
      then those (map (\<lambda>n. getPageMetrics_csv (browse (secondaryUrl_csv (ic ! 2)) n))
                   (trialNames ''other-iter-''))
      else Some []) = Some oc"
    using c1 by (cases "otherPage (ic ! 2) \<noteq> ''N/A'' \<and> otherPage (ic ! 2) \<noteq> ''DNF''") auto
  show "loadSite_csv browse name site \<noteq> None"
    unfolding loadSite_csv_def ic Let_def option.case oc by simp
  obtain ij where ij: "those (map (\<lambda>n. getPageMetrics_json (browse site n))
                                (trialNames ''iter-'')) = Some ij"
    using j1 by blast
  obtain oj where oj:
    "(if otherPage (ij ! 2) \<noteq> ''N/A'' \<and> otherPage (ij ! 2) \<noteq> ''DNF''
      then those (map (\<lambda>n. getPageMetrics_json (browse (secondaryUrl_json site (ij ! 2)) n))
                   (trialNames ''other-iter-''))
      else Some []) = Some oj"
    using j1 by (cases "otherPage (ij ! 2) \<noteq> ''N/A'' \<and> otherPage (ij ! 2) \<noteq> ''DNF''") auto
  show "loadSite_json browse site \<noteq> None"
    unfolding loadSite_json_def ij Let_def option.case oj by simp
qed

lemma placeholders:
  "homepageNavigationTries False target tries = [placeholder, placeholder, placeholder]"
  by (simp add: homepageNavigationTries_def placeholder_def numeral_3_eq_3)

lemma other_length:
  assumes "map Some xs = (if b then map f otherNames else [])"
  shows "(length xs = 3) = b" and "b \<or> xs = []"
proof -
  have "length (map Some xs) = (if b then 3 else 0)"
    unfolding assms by (simp add: otherNames_def)
  then show "(length xs = 3) = b"
    by (simp split: if_splits)
  show "b \<or> xs = []"
    using assms by (simp split: if_splits)
qed

lemmas driver_eval = firstTrial_csv_def firstTrial_json_def thirdTrial_csv_def
  thirdTrial_json_def linkDetected_def flakyBrowser_def deadBrowser_def aboutVisit_def
  aboutPage_def blogVisit_def blogPage_def measuredTrial_def secondaryUrl_csv_def
  secondaryUrl_json_def otherNames_def

lemma flaky_valid: "allUrlsValid flakyBrowser"
  by (simp add: allUrlsValid_def flakyBrowser_def aboutVisit_def timedOutVisit_def
        failedVisit_def)

lemma dead_valid: "allUrlsValid deadBrowser"
  by (simp add: allUrlsValid_def deadBrowser_def failedVisit_def)

text \<open>
  Claim C6. In the JSON script and in the CSV script, for every target whose run
  completes (it does whenever every URL parses), the three secondary trials are run
  exactly when the \<open>otherPage\<close> of the third primary trial is neither \<open>N/A\<close> nor \<open>DNF\<close>, and
  they visit the URL derived from that trial; otherwise no secondary trial is run, and
  the twelve secondary cells of the CSV row are all \<open>N/A\<close>. In the combined-averages
  script, when no link was found the three slots of the homepage navigation are filled
  with the placeholder \<open>{homepageLinkFound: false, homepageLinkClickTime: 'N/A'}\<close>.
\<close>

theorem secondary_trials_gate:
  "(loadSite_csv browse name site = Some pd \<longrightarrow>
      (\<exists>third. thirdTrial_csv browse site = Some third \<and>
         (length (otherMetrics pd) = 3) = linkDetected third \<and>
         map Some (otherMetrics pd) =
           (if linkDetected third
            then map (\<lambda>n. getPageMetrics_csv (browse (secondaryUrl_csv third) n)) otherNames
            else []) \<and>
         (linkDetected third \<or>
          otherMetrics pd = [] \<and>
          otherCells (otherMetrics pd) = Some (replicate 12 (Str ''N/A''))))) \<and>
   (loadSite_json browse site = Some pj \<longrightarrow>
      (\<exists>third. thirdTrial_json browse site = Some third \<and>
         (length (otherMetrics pj) = 3) = linkDetected third \<and>
         map Some (otherMetrics pj) =
           (if linkDetected third
            then map (\<lambda>n. getPageMetrics_json (browse (secondaryUrl_json site third) n))
                   otherNames
            else []) \<and>
         (linkDetected third \<or> otherMetrics pj = []))) \<and>
   (allUrlsValid browse \<longrightarrow>
      loadSite_csv browse name site \<noteq> None \<and> loadSite_json browse site \<noteq> None) \<and>
   homepageNavigationTries False target tries = [placeholder, placeholder, placeholder] \<and>
   get placeholder ''homepageLinkFound'' = Bool False \<and>
   get placeholder ''homepageLinkClickTime'' = Str ''N/A''"
proof (intro conjI impI)
  assume "loadSite_csv browse name site = Some pd"
  then obtain third where t: "thirdTrial_csv browse site = Some third"
    and m: "map Some (otherMetrics pd) =
              (if linkDetected third
               then map (\<lambda>n. getPageMetrics_csv (browse (secondaryUrl_csv third) n)) otherNames
               else [])"
    using loadSite_csv_Some by blast
  have "linkDetected third \<or> otherMetrics pd = []"
    using m by (rule other_length)
  then have "linkDetected third \<or>
             otherMetrics pd = [] \<and>
             otherCells (otherMetrics pd) = Some (replicate 12 (Str ''N/A''))"
    by (auto simp: otherCells_def)
  then show "\<exists>third. thirdTrial_csv browse site = Some third \<and>
         (length (otherMetrics pd) = 3) = linkDetected third \<and>
         map Some (otherMetrics pd) =
           (if linkDetected third
            then map (\<lambda>n. getPageMetrics_csv (browse (secondaryUrl_csv third) n)) otherNames
            else []) \<and>
         (linkDetected third \<or>
          otherMetrics pd = [] \<and>
          otherCells (otherMetrics pd) = Some (replicate 12 (Str ''N/A'')))"
    using t m other_length(1) [OF m] by blast
next
  assume "loadSite_json browse site = Some pj"
  then obtain third where t: "thirdTrial_json browse site = Some third"
    and m: "map Some (otherMetrics pj) =
              (if linkDetected third
               then map (\<lambda>n. getPageMetrics_json (browse (secondaryUrl_json site third) n))
                      otherNames
               else [])"
    using loadSite_json_Some by blast
  show "\<exists>third. thirdTrial_json browse site = Some third \<and>
         (length (otherMetrics pj) = 3) = linkDetected third \<and>
         map Some (otherMetrics pj) =
           (if linkDetected third
            then map (\<lambda>n. getPageMetrics_json (browse (secondaryUrl_json site third) n))
                   otherNames
            else []) \<and>
         (linkDetected third \<or> otherMetrics pj = [])"
    using t m other_length [OF m] by blast
next
  assume v: "allUrlsValid browse"
  show "loadSite_csv browse name site \<noteq> None"
    using v by (rule loadSite_total)
  show "loadSite_json browse site \<noteq> None"
    using v by (rule loadSite_total)
next
  show "homepageNavigationTries False target tries = [placeholder, placeholder, placeholder]"
    by (rule placeholders)
qed (simp_all add: placeholder_def get_def)

theorem secondary_trials_gate_witness:
  "allUrlsValid flakyBrowser \<and>
   (\<exists>pd third. loadSite_csv flakyBrowser ''indie'' ''https://example.com'' = Some pd \<and>
      thirdTrial_csv flakyBrowser ''https://example.com'' = Some third \<and>
      linkDetected third \<and> length (otherMetrics pd) = 3) \<and>
   allUrlsValid deadBrowser \<and>
   (\<exists>pd third. loadSite_csv deadBrowser ''indie'' ''https://example.com'' = Some pd \<and>
      thirdTrial_csv deadBrowser ''https://example.com'' = Some third \<and>
      \<not> linkDetected third \<and> otherMetrics pd = [] \<and>
      otherCells (otherMetrics pd) = Some (replicate 12 (Str ''N/A'')))"
proof -
  obtain t1 where a: "thirdTrial_csv flakyBrowser ''https://example.com'' = Some t1"
    and a': "linkDetected t1"
    by (simp add: driver_eval trial_eval Let_def)
  obtain t2 where b: "thirdTrial_csv deadBrowser ''https://example.com'' = Some t2"
    and b': "\<not> linkDetected t2"
    by (simp add: driver_eval trial_eval Let_def)
  obtain p1 where c: "loadSite_csv flakyBrowser ''indie'' ''https://example.com'' = Some p1"
    using flaky_valid
      secondary_trials_gate [of flakyBrowser "''indie''" "''https://example.com''"]
    by blast
  obtain p2 where d: "loadSite_csv deadBrowser ''indie'' ''https://example.com'' = Some p2"
    using dead_valid
      secondary_trials_gate [of deadBrowser "''indie''" "''https://example.com''"]
    by blast
  note live = secondary_trials_gate
    [of flakyBrowser "''indie''" "''https://example.com''" p1, THEN conjunct1, THEN mp, OF c]
  note dead = secondary_trials_gate
    [of deadBrowser "''indie''" "''https://example.com''" p2, THEN conjunct1, THEN mp, OF d]
  obtain t1' where "thirdTrial_csv flakyBrowser ''https://example.com'' = Some t1'"
    and l: "(length (otherMetrics p1) = 3) = linkDetected t1'"
    using live by blast
  then have e: "length (otherMetrics p1) = 3"
    using a a' by simp
  obtain t2' where "thirdTrial_csv deadBrowser ''https://example.com'' = Some t2'"
    and n: "linkDetected t2' \<or>
            otherMetrics p2 = [] \<and>
            otherCells (otherMetrics p2) = Some (replicate 12 (Str ''N/A''))"
    using dead by blast
  then have "\<not> linkDetected t2'"
    using b b' by simp
  then have f: "otherMetrics p2 = [] \<and>
           otherCells (otherMetrics p2) = Some (replicate 12 (Str ''N/A''))"
    using n by blast
  show ?thesis
    using flaky_valid dead_valid a a' b b' c d e f by blast
qed

text \<open>
  Claim C7 does not hold of the code: the URL of the secondary page is built by string
  concatenation. In the JSON script the site \<open>https://example.com\<close> with the detected link
  \<open>about.html\<close> gives \<open>https://example.comabout.html\<close>, a URL on another host. In the CSV
  script the page \<open>https://example.com/blog/\<close> with the detected link \<open>/about\<close> gives
  \<open>https://example.com/blog/about\<close>, where the link addresses \<open>https://example.com/about\<close>.
\<close>

theorem relative_join_malformed:
  "map_option otherPage (getPageMetrics_json aboutVisit) = Some ''about.html'' \<and>
   map_option (secondaryUrl_json ''https://example.com'') (getPageMetrics_json aboutVisit) =
     Some ''https://example.comabout.html'' \<and>
   map_option otherPage (getPageMetrics_csv blogVisit) = Some ''/about'' \<and>
   map_option actualPage (getPageMetrics_csv blogVisit) = Some ''https://example.com/blog/'' \<and>
   map_option secondaryUrl_csv (getPageMetrics_csv blogVisit) =
     Some ''https://example.com/blog/about''"
  by (simp add: driver_eval trial_eval Let_def)

lemma flaky_first: "map_option actualPage (firstTrial_csv flakyBrowser ''https://example.com'') = Some ''DNF''"
  by (simp add: driver_eval trial_eval Let_def)

lemma flaky_third:
  "map_option otherPage (thirdTrial_csv flakyBrowser ''https://example.com'') = Some ''about.html''"
  by (simp add: driver_eval trial_eval Let_def)

lemma flaky_summary:
  "\<exists>pd. loadSite_csv flakyBrowser ''indie'' ''https://example.com'' = Some pd \<and>
     actualSiteUrl pd = ''DNF'' \<and> length (otherMetrics pd) = 3"
proof -
  obtain pd where p: "loadSite_csv flakyBrowser ''indie'' ''https://example.com'' = Some pd"
    using loadSite_total(1) [OF flaky_valid] by blast
  then obtain first third where
    f: "firstTrial_csv flakyBrowser ''https://example.com'' = Some first"
    and t: "thirdTrial_csv flakyBrowser ''https://example.com'' = Some third"
    and a: "actualSiteUrl pd = actualPage first"
    and m: "map Some (otherMetrics pd) =
              (if linkDetected third
               then map (\<lambda>n. getPageMetrics_csv (flakyBrowser (secondaryUrl_csv third) n))
                      otherNames
               else [])"
    using loadSite_csv_Some by blast
  have "actualPage first = ''DNF''"
    using f flaky_first by simp
  moreover have "linkDetected third"
    using t flaky_third by (auto simp: linkDetected_def)
  ultimately show ?thesis
    using p a other_length(1) [OF m] by simp
qed

text \<open>
  Claim C10. The \<open>actualSiteUrl\<close> of a Site Summary is the \<open>actualPage\<close> of the first
  primary trial, while the secondary trials visit the URL derived from the link detected by
  the third primary trial. So when the first trial times out and the later ones succeed,
  \<open>actualSiteUrl\<close> is the sentinel \<open>DNF\<close> although a link was found and three secondary
  trials were run.
\<close>

theorem actual_url_from_first_trial:
  "(loadSite_csv browse name site = Some pd \<longrightarrow>
      (\<exists>first third.
         firstTrial_csv browse site = Some first \<and> thirdTrial_csv browse site = Some third \<and>
         actualSiteUrl pd = actualPage first \<and>
         map Some (otherMetrics pd) =
           (if linkDetected third
            then map (\<lambda>n. getPageMetrics_csv (browse (secondaryUrl_csv third) n)) otherNames
            else []))) \<and>
   (loadSite_json browse site = Some pj \<longrightarrow>
      (\<exists>first third.
         firstTrial_json browse site = Some first \<and> thirdTrial_json browse site = Some third \<and>
         actualSiteUrl pj = actualPage first \<and>
         map Some (otherMetrics pj) =
           (if linkDetected third
            then map (\<lambda>n. getPageMetrics_json (browse (secondaryUrl_json site third) n))
                   otherNames
            else []))) \<and>
   map_option otherPage (thirdTrial_csv flakyBrowser ''https://example.com'') =
     Some ''about.html'' \<and>
   (\<exists>pd. loadSite_csv flakyBrowser ''indie'' ''https://example.com'' = Some pd \<and>
      actualSiteUrl pd = ''DNF'' \<and> length (otherMetrics pd) = 3)"
  using loadSite_csv_Some [of browse name site pd] loadSite_json_Some [of browse site pj]
    flaky_third flaky_summary
  by blast

theorem actual_url_from_first_trial_witness:
  "\<exists>pj first. loadSite_json flakyBrowser ''https://example.com'' = Some pj \<and>
     firstTrial_json flakyBrowser ''https://example.com'' = Some first \<and>
     actualSiteUrl pj = actualPage first \<and> actualPage first = ''DNF''"
proof -
  obtain pj where p: "loadSite_json flakyBrowser ''https://example.com'' = Some pj"
    using loadSite_total(2) [OF flaky_valid] by blast
  have a: "map_option actualPage (firstTrial_json flakyBrowser ''https://example.com'') =
             Some ''DNF''"
    by (simp add: driver_eval trial_eval Let_def)
  note summary = actual_url_from_first_trial
    [of flakyBrowser "''indie''" "''https://example.com''" _ pj,
     THEN conjunct2, THEN conjunct1, THEN mp, OF p]
  then obtain first where f: "firstTrial_json flakyBrowser ''https://example.com'' = Some first"
    and u: "actualSiteUrl pj = actualPage first"
    by blast
  have "actualPage first = ''DNF''"
    using a f by simp
  then show ?thesis
    using p f u by blast
qed

section \<open>Aggregator: properties\<close>
















section \<open>Link Heuristic: properties\<close>

lemma startsWith_append: "startsWith (d @ s) d"
  by (induction d) simp_all

lemma scanLocators_root:
  assumes "link_href l = Some ''/''" "link_url l = Some u" "url_href u = currentDomain @ ''/''"
  shows "scanLocators currentDomain (l # ls) st =
           Finished (st\<lparr>foundHref := currentDomain @ ''/'', linkFound := True\<rparr>)"
  using assms by (simp add: startsWith_append)

text \<open>
  Claim C9. The function is given a loaded page and the URL of that page, whose origin is
  \<open>currentDomain\<close>; the href \<open>/\<close> then resolves to \<open>currentDomain + "/"\<close>. For every such
  page on which the first element matched by the first selector, \<open>a[href="/"]\<close>, has the
  href \<open>/\<close>, the Link Heuristic returns \<open>{found: true, href: origin + "/"}\<close> and stops at
  that anchor: the first selector is the only one handed to \<open>page.locator\<close>, whatever the
  other selectors would match.
\<close>

theorem root_link_found:
  assumes "locate (homepageSelectors ! 0) = l # ls"
    and "link_href l = Some ''/''" and "link_url l = Some u"
    and "url_href u = currentDomain @ ''/''"
  shows "findHomepageLinkOnce locate (Some currentDomain) =
           \<lparr>linkFound = True, foundHref = currentDomain @ ''/'',
            queried = [homepageSelectors ! 0]\<rparr>"
proof -
  obtain rest where sel: "homepageSelectors = (homepageSelectors ! 0) # rest"
    by (simp add: homepageSelectors_def)
  have "scanSelectors locate currentDomain ((homepageSelectors ! 0) # rest)
          \<lparr>linkFound = False, foundHref = ''N/A'', queried = []\<rparr> =
        \<lparr>linkFound = True, foundHref = currentDomain @ ''/'',
         queried = [homepageSelectors ! 0]\<rparr>"
    using assms(1) scanLocators_root [OF assms(2-4), of ls]
    by (simp add: Let_def)
  then show ?thesis
    using sel by (simp add: findHomepageLinkOnce_def)
qed

theorem root_link_found_witness:
  \<open>onlyRoot ''https://example.com'' (homepageSelectors ! 0) = [rootLink ''https://example.com''] \<and>
   link_href (rootLink ''https://example.com'') = Some ''/'' \<and>
   findHomepageLinkOnce (onlyRoot ''https://example.com'') (Some ''https://example.com'') =
     \<lparr>linkFound = True, foundHref = ''https://example.com/'', queried = [''a[href="/"]'']\<rparr>\<close>
proof -
  have a: "onlyRoot ''https://example.com'' (homepageSelectors ! 0) =
             [rootLink ''https://example.com'']"
    by (simp add: onlyRoot_def homepageSelectors_def)
  have b: "link_href (rootLink ''https://example.com'') = Some ''/''"
    by (simp add: rootLink_def)
  have c: "link_url (rootLink ''https://example.com'') =
             Some \<lparr>url_href = ''https://example.com/'', url_pathname = ''/''\<rparr>"
    by (simp add: rootLink_def)
  have d: "url_href \<lparr>url_href = ''https://example.com/'', url_pathname = ''/''\<rparr> =
             ''https://example.com'' @ ''/''"
    by simp
  show ?thesis
    using root_link_found
      [of "onlyRoot ''https://example.com''" "rootLink ''https://example.com''" "[]"
          "\<lparr>url_href = ''https://example.com/'', url_pathname = ''/''\<rparr>"
          "''https://example.com''",
       OF a b c d] a b
    by (simp add: homepageSelectors_def)
qed

text \<open>
  The hypothesis on the resolved href matters where the caller passes the requested URL
  and the browser was redirected to another origin: the anchor then resolves off-origin
  and is discarded like any other, and all selectors are tried.
\<close>

lemma root_link_off_origin:
  \<open>linkFound (findHomepageLinkOnce (onlyRoot ''https://example.com'')
     (Some ''http://example.com'')) = False \<and>
   foundHref (findHomepageLinkOnce (onlyRoot ''https://example.com'')
     (Some ''http://example.com'')) = ''N/A'' \<and>
   queried (findHomepageLinkOnce (onlyRoot ''https://example.com'')
     (Some ''http://example.com'')) = homepageSelectors\<close>
  by (simp add: findHomepageLinkOnce_def homepageSelectors_def onlyRoot_def rootLink_def)

end
